theory Spec2Isabelle
  imports Complex_Main "HOL-Library.AList" "HOL-Library.Char_ord" "HOL-Library.List_Lexorder" "HOL-Library.Product_Lexorder"
begin

section \<open>Waveform names\<close>

text \<open>
  \<^verbatim>\<open>pulsar.py\<close>, \<^verbatim>\<open>simplify_name(s)\<close>:
  \<^verbatim>\<open>
  s = list(s)
  for i in range(len(s)):
      s[i] = '_' if s[i].isalnum() or s[i] == '-' else s[i]
  return ''.join(s)
  \<close>
  A HOL \<^typ>\<open>char\<close> is one byte; \<open>isalnum\<close> is Python's \<^verbatim>\<open>str.isalnum\<close> on the
  ASCII range (digits and letters). The waveform names that reach the function are built
  from element names, channel ids and device names.
\<close>

definition isalnum :: "char \<Rightarrow> bool" where
  "isalnum c =
     (let n = (of_char c :: nat)
      in (48 \<le> n \<and> n \<le> 57) \<or> (65 \<le> n \<and> n \<le> 90) \<or> (97 \<le> n \<and> n \<le> 122))"

text \<open>One pass of the loop body, at index \<open>i\<close>.\<close>

definition simplify_step :: "string \<Rightarrow> nat \<Rightarrow> string" where
  "simplify_step s i =
     s[i := (if isalnum (s ! i) \<or> s ! i = CHR ''-'' then CHR ''_'' else s ! i)]"




section \<open>Sequences, segments and waveforms\<close>

text \<open>
  The classes \<^verbatim>\<open>Sequence\<close> and \<^verbatim>\<open>Segment\<close> are consumed by the Pulsar, not
  defined in it. A segment is modelled by what \<^verbatim>\<open>segment.waveforms(awgs=[name])\<close>
  returns for an AWG name: \<open>None\<close> when the name is not a key of the result, else the
  dictionary from \<^verbatim>\<open>(i, el)\<close> to the dictionary from codeword to the dictionary from
  channel id to sample array. Python dictionaries are association lists in insertion
  order; sample arrays are lists of reals.
\<close>

type_synonym waveform = "real list"
type_synonym cid_wfs = "(string \<times> waveform) list"
type_synonym cw_wfs = "(string \<times> cid_wfs) list"
type_synonym el_key = "nat \<times> string"
type_synonym awg_wfs = "(el_key \<times> cw_wfs) list"
type_synonym el_wfs = "(el_key \<times> cid_wfs) list"
type_synonym segment = "string \<Rightarrow> awg_wfs option"

text \<open>
  \<open>awg_sequence\<close> is \<^verbatim>\<open>sequence.awg_sequence\<close>: per AWG name the list of
  \<^verbatim>\<open>(element, segment)\<close> pairs to play, \<open>None\<close> when the name is not a key.
\<close>

record sequence =
  seq_name :: string
  segments :: "(string \<times> segment) list"
  awg_sequence :: "string \<Rightarrow> (string \<times> string) list option"


section \<open>Instruments, hardware calls and the Pulsar object\<close>

text \<open>
  The instrument drivers are outside the repository part under study; a driver object is
  modelled by its name, its class and the answers it gives. \<open>obj_get\<close> is
  \<^verbatim>\<open>obj.get(par)\<close>, \<open>obj_timeout\<close> is \<^verbatim>\<open>obj.timeout()\<close>; \<open>reports_running t\<close> is the answer of the device-specific
  running-state query (\<^verbatim>\<open>obj.get_state() != 'Idle'\<close> for the AWG5014,
  all four \<^verbatim>\<open>awgs_{}_enable\<close> for the HDAWG8) when asked at time \<open>t\<close>.
\<close>

datatype awg_type =
  Tektronix_AWG5014 | VirtualAWG5014 | ZI_HDAWG8 | VirtualAWG8 | UHFQC | OtherInstrument

record awg_obj =
  obj_name :: string
  obj_type :: awg_type
  obj_get :: "string \<Rightarrow> real"
  obj_timeout :: real
  reports_running :: "nat \<Rightarrow> bool"

text \<open>\<^verbatim>\<open>Instrument.find_instrument(name)\<close>: the registry of instruments by name.\<close>

type_synonym instruments = "string \<Rightarrow> awg_obj option"

text \<open>
  Every \<^verbatim>\<open>raise\<close> of the modelled code, and the exceptions of the built-in
  operations it uses.
\<close>

datatype error =
    KeyError string
  | TypeError_unsupported string
  | Exception_did_not_start string
  | Exception_codewords
  | Exception_repetitions string string int
  | TypeError
  | ValueError
  | IndexError
  | NameError

text \<open>
  The arguments of \<^verbatim>\<open>obj.pack_waveform(wf, m1, m2)\<close> and of
  \<^verbatim>\<open>obj.generate_awg_file(...)\<close>: both are driver calls, kept symbolic.
\<close>

datatype packed = Packed waveform waveform waveform

record awg_file =
  packed_waveforms :: "(string \<times> packed) list"
  wfname_l :: "string list list"
  nrep_l :: "int list"
  wait_l :: "int list"
  goto_l :: "int list"
  logic_jump_l :: "int list"
  channel_cfg :: "(string \<times> real) list"

text \<open>The calls made on the instruments, in the order they are made.\<close>

datatype hw_call =
    CallStart string
  | CallStop string
  | CallIsRunning string nat bool
  | CallSet string string real
  | CallSetTimeout string real
  | CallSendAwgFile string string awg_file
  | CallLoadAwgFile string string
  | CallIsAwgReady string
  | CallDCOutput string nat

datatype log_entry =
    Warning_nonzero_first string string
  | Warning_trigger_wait_nonzero_first string
  | Warning_too_many_elements string nat
  | Info_programming string string nat

text \<open>
  The world outside the Pulsar object: a clock in milliseconds (\<^verbatim>\<open>time.time()\<close>;
  \<^verbatim>\<open>time.sleep(0.1)\<close> advances it by 100, every other call is taken to be
  instantaneous), the calls made so far and the log.
\<close>

record world =
  now :: nat
  calls :: "hw_call list"
  log :: "log_entry list"

text \<open>
  The Pulsar object. \<open>awgs\<close> is the Python set \<^verbatim>\<open>self.awgs\<close> in the order it is
  iterated; \<open>awg_active a\<close> is the parameter \<^verbatim>\<open>{a}_active\<close>;
  \<open>awgs_with_waveforms\<close> is \<^verbatim>\<open>self._awgs_with_waveforms\<close>.
  \<open>awg5014_chan_cfg\<close> and \<open>channel_options\<close> stand for the results of
  \<^verbatim>\<open>self._awg5014_chan_cfg(awg)\<close> and of
  \<^verbatim>\<open>self.get('{}_options'.format(self._id_channel(grp, awg)))\<close> (\<open>None\<close> when the
  parameter does not exist and \<^verbatim>\<open>get\<close> raises), which read the channel registry.
\<close>

record pulsar =
  awgs :: "string list"
  awg_active :: "string \<Rightarrow> bool"
  master_awg :: "string option"
  awgs_with_waveforms :: "string list"
  awgs_prequeried_state :: bool
  last_sequence :: "sequence option"
  awg5014_chan_cfg :: "string \<Rightarrow> (string \<times> real) list"
  channel_options :: "string \<Rightarrow> string \<Rightarrow> (string \<Rightarrow> string option) option"

definition active_awgs :: "pulsar \<Rightarrow> string list" where
  "active_awgs p = filter (awg_active p) (awgs p)"

text \<open>\<^verbatim>\<open>self.awgs_with_waveforms(awg)\<close> with an argument: add to the set.\<close>

definition add_awg_with_waveforms :: "pulsar \<Rightarrow> string \<Rightarrow> pulsar" where
  "add_awg_with_waveforms p awg =
     p\<lparr>awgs_with_waveforms := List.insert awg (awgs_with_waveforms p)\<rparr>"

text \<open>\<^verbatim>\<open>set(self.active_awgs()) & awgs_with_waveforms\<close>.\<close>

definition used_awgs :: "pulsar \<Rightarrow> string list" where
  "used_awgs p = filter (\<lambda>a. a \<in> set (awgs_with_waveforms p)) (active_awgs p)"

definition call :: "hw_call \<Rightarrow> world \<Rightarrow> world" where
  "call c w = w\<lparr>calls := calls w @ [c]\<rparr>"

definition sleep_ms :: "nat \<Rightarrow> world \<Rightarrow> world" where
  "sleep_ms d w = w\<lparr>now := now w + d\<rparr>"


definition stop_awg :: "instruments \<Rightarrow> string \<Rightarrow> world \<Rightarrow> world \<times> (error + unit)" where
  "stop_awg ins awg w =
     (case ins awg of
        None \<Rightarrow> (w, Inl (KeyError awg))
      | Some obj \<Rightarrow> (call (CallStop awg) w, Inr ()))"



section \<open>Starting and stopping\<close>






text \<open>\<^verbatim>\<open>Pulsar.stop\<close>: \<^verbatim>\<open>for awg in used_awgs: self._stop_awg(awg)\<close>\<close>

fun stop_all :: "instruments \<Rightarrow> string list \<Rightarrow> world \<Rightarrow> world \<times> (error + unit)" where
  "stop_all ins [] w = (w, Inr ())"
| "stop_all ins (awg # rest) w =
     (case stop_awg ins awg w of
        (w', Inl e) \<Rightarrow> (w', Inl e)
      | (w', Inr _) \<Rightarrow> stop_all ins rest w')"

definition stop :: "instruments \<Rightarrow> pulsar \<Rightarrow> world \<Rightarrow> world \<times> (error + unit)" where
  "stop ins p w = stop_all ins (used_awgs p) w"





section \<open>Programming an AWG5014\<close>

definition log_entry_add :: "log_entry \<Rightarrow> world \<Rightarrow> world" where
  "log_entry_add e w = w\<lparr>log := log w @ [e]\<rparr>"

definition calls_add :: "hw_call list \<Rightarrow> world \<Rightarrow> world" where
  "calls_add cs w = w\<lparr>calls := calls w @ cs\<rparr>"

text \<open>
  The marker parameters saved at the start of \<^verbatim>\<open>_program_awg\<close> and restored at its
  end: \<^verbatim>\<open>'ch{}_m{}_low'\<close> and \<^verbatim>\<open>'ch{}_m{}_high'\<close> for \<^verbatim>\<open>ch\<close> in 1..4 and
  \<^verbatim>\<open>m\<close> in 1..2 (a Python set; listed here in the order it is built).
\<close>

definition marker_pars :: "string list" where
  "marker_pars =
     concat (map (\<lambda>ch. map (\<lambda>m. ''ch'' @ ch @ ''_m'' @ m @ ''_low'') [''1'', ''2''])
                 [''1'', ''2'', ''3'', ''4'']) @
     concat (map (\<lambda>ch. map (\<lambda>m. ''ch'' @ ch @ ''_m'' @ m @ ''_high'') [''1'', ''2''])
                 [''1'', ''2'', ''3'', ''4''])"

text \<open>\<^verbatim>\<open>_awg5014_group_ids(cid)\<close>: \<^verbatim>\<open>[cid[:3], cid[:3] + '_m1', cid[:3] + '_m2']\<close>\<close>

definition awg5014_group_ids :: "string \<Rightarrow> string list" where
  "awg5014_group_ids cid = [take 3 cid, take 3 cid @ ''_m1'', take 3 cid @ ''_m2'']"

text \<open>
  \<^verbatim>\<open>_awg5014_activate_channels(grps, awg)\<close>:
  \<^verbatim>\<open>
  for i in range(1,5):
      self.AWG_obj(awg=awg).set('ch{}_state'.format(i), 0)
  for grp in grps:
      self.AWG_obj(awg=awg).set('{}_state'.format(grp), 1)
  \<close>
\<close>

definition awg5014_activate_channels :: "string list \<Rightarrow> string \<Rightarrow> world \<Rightarrow> world" where
  "awg5014_activate_channels grps awg w =
     calls_add (map (\<lambda>i. CallSet awg (''ch'' @ i @ ''_state'') 0) [''1'', ''2'', ''3'', ''4''] @
                map (\<lambda>grp. CallSet awg (grp @ ''_state'') 1) grps) w"

text \<open>
  The body of the loop over the elements of one segment:
  \<^verbatim>\<open>
  for (i,el) in wfs:
      if len(wfs[(i,el)]) > 1 or 'no_codeword' not in wfs[(i,el)]:
          raise Exception('AWG5014 does not support codewords')
      seg_wfs[segment][(i,el)] = wfs[(i,el)]['no_codeword']
  \<close>
\<close>

fun no_codeword_wfs :: "awg_wfs \<Rightarrow> error + el_wfs" where
  "no_codeword_wfs [] = Inr []"
| "no_codeword_wfs ((k, cws) # rest) =
     (if length cws > 1 then Inl Exception_codewords
      else (case map_of cws ''no_codeword'' of
              None \<Rightarrow> Inl Exception_codewords
            | Some cid_wfs \<Rightarrow>
                (case no_codeword_wfs rest of
                   Inl e \<Rightarrow> Inl e
                 | Inr r \<Rightarrow> Inr ((k, cid_wfs) # r))))"

text \<open>
  The loop over the segments. \<open>seg_wfs\<close> holds one entry per segment, in the order of
  \<^verbatim>\<open>sequence.segments\<close>; the AWG enters the set of AWGs with waveforms as soon as one
  segment has waveforms for it, before the elements of that segment are looked at.
  \<^verbatim>\<open>
  for segment in sequence.segments:
      seg_wfs[segment] = {}
      wfs = sequence.segments[segment].waveforms(awgs=[obj.name])
      if obj.name not in wfs:
          continue
      wfs = wfs[obj.name]
      awg_has_waveforms = True
      self.awgs_with_waveforms(obj.name)
      ...
  \<close>
\<close>

fun collect_seg_wfs ::
  "string \<Rightarrow> (string \<times> segment) list \<Rightarrow> pulsar \<Rightarrow> el_wfs list \<Rightarrow> bool \<Rightarrow>
   pulsar \<times> (error + el_wfs list \<times> bool)" where
  "collect_seg_wfs name [] p seg_wfs has = (p, Inr (seg_wfs, has))"
| "collect_seg_wfs name ((sname, seg) # rest) p seg_wfs has =
     (case seg name of
        None \<Rightarrow> collect_seg_wfs name rest p (seg_wfs @ [[]]) has
      | Some wfs \<Rightarrow>
          (case no_codeword_wfs wfs of
             Inl e \<Rightarrow> (add_awg_with_waveforms p name, Inl e)
           | Inr el \<Rightarrow>
               collect_seg_wfs name rest (add_awg_with_waveforms p name)
                 (seg_wfs @ [el]) True))"

text \<open>\<^verbatim>\<open>a.any()\<close> on a sample array: some entry is non-zero.\<close>

definition any_nonzero :: "waveform \<Rightarrow> bool" where
  "any_nonzero arr = list_ex (\<lambda>x. x \<noteq> 0) arr"

text \<open>
  The channel groups with a non-zero sample somewhere in the sequence:
  \<^verbatim>\<open>
  grps = set()
  for segment in sequence.segments:
      el_wfs = seg_wfs[segment]
      for cid_wfs in el_wfs.values():
          for cid in cid_wfs:
              if cid_wfs[cid].any():
                  grps.add(cid[:3])
  grps = list(grps)
  grps.sort()
  \<close>
\<close>

definition nonzero_cids :: "cid_wfs \<Rightarrow> string list" where
  "nonzero_cids cid_wfs = map (\<lambda>(cid, arr). take 3 cid) (filter (\<lambda>(cid, arr). any_nonzero arr) cid_wfs)"

definition nonzero_groups :: "el_wfs list \<Rightarrow> string list" where
  "nonzero_groups seg_wfs =
     sort (remdups (concat (map (\<lambda>el_wfs. concat (map (\<lambda>(k, cid_wfs). nonzero_cids cid_wfs) el_wfs))
                                seg_wfs)))"

text \<open>
  \<^verbatim>\<open>
  maxlen = -float('inf')
  for wf in cid_wfs.values():
      maxlen = max(maxlen, len(wf))
  \<close>
  \<open>None\<close> is the initial \<^verbatim>\<open>-inf\<close>, which stays when the element has no channel.
\<close>

definition maxlen_of :: "cid_wfs \<Rightarrow> nat option" where
  "maxlen_of cid_wfs =
     foldl (\<lambda>maxlen arr. Some (case maxlen of None \<Rightarrow> length arr | Some n \<Rightarrow> max n (length arr)))
       None (map snd cid_wfs)"

text \<open>
  \<^verbatim>\<open>np.pad(a, (0, k), 'constant', constant_values=0)\<close>; a negative \<open>k\<close> is a
  \<^verbatim>\<open>ValueError\<close>.
\<close>

definition np_pad :: "waveform \<Rightarrow> int \<Rightarrow> error + waveform" where
  "np_pad arr k = (if k < 0 then Inl ValueError else Inr (arr @ replicate (nat k) 0))"

text \<open>
  One channel id of a group:
  \<^verbatim>\<open>
  grp_wfs[cid] = cid_wfs.get(cid, np.zeros(maxlen))
  grp_wfs[cid] = np.pad(grp_wfs[cid], (0, maxlen - len(grp_wfs[cid])),
                        'constant', constant_values=0)
  \<close>
  \<^verbatim>\<open>np.zeros(maxlen)\<close> is evaluated whether or not the id is present, and raises a
  \<^verbatim>\<open>TypeError\<close> on \<^verbatim>\<open>-inf\<close>.
\<close>

definition group_waveform :: "cid_wfs \<Rightarrow> nat option \<Rightarrow> string \<Rightarrow> error + waveform" where
  "group_waveform cid_wfs maxlen cid =
     (case maxlen of
        None \<Rightarrow> Inl TypeError
      | Some n \<Rightarrow>
          (let arr = (case map_of cid_wfs cid of Some arr \<Rightarrow> arr | None \<Rightarrow> replicate n 0)
           in np_pad arr (int n - int (length arr))))"

text \<open>
  The loop over the ids of one group, with the warning:
  \<^verbatim>\<open>
  for cid in self._awg5014_group_ids(grp):
      grp_wfs[cid] = ...
      if grp_wfs[cid][0] != 0.:
          log.warning('Element {} starts with non zero entry on {}.'.format(el, obj.name))
  \<close>
  Reading index 0 of an empty array is an \<^verbatim>\<open>IndexError\<close>.
\<close>

fun pad_group ::
  "string \<Rightarrow> string \<Rightarrow> cid_wfs \<Rightarrow> nat option \<Rightarrow> string list \<Rightarrow> cid_wfs \<Rightarrow> world \<Rightarrow>
   world \<times> (error + cid_wfs)" where
  "pad_group el awg cid_wfs maxlen [] grp_wfs w = (w, Inr grp_wfs)"
| "pad_group el awg cid_wfs maxlen (cid # cids) grp_wfs w =
     (case group_waveform cid_wfs maxlen cid of
        Inl e \<Rightarrow> (w, Inl e)
      | Inr arr \<Rightarrow>
          (case arr of
             [] \<Rightarrow> (w, Inl IndexError)
           | x # _ \<Rightarrow>
               pad_group el awg cid_wfs maxlen cids (AList.update cid arr grp_wfs)
                 (if x \<noteq> 0 then log_entry_add (Warning_nonzero_first el awg) w else w)))"

text \<open>
  \<^verbatim>\<open>obj.pack_waveform(grp_wfs[grp], grp_wfs[grp + '_m1'], grp_wfs[grp + '_m2'])\<close>
\<close>

definition pack_group :: "string \<Rightarrow> cid_wfs \<Rightarrow> error + packed" where
  "pack_group grp grp_wfs =
     (case map_of grp_wfs grp of
        None \<Rightarrow> Inl (KeyError grp)
      | Some a \<Rightarrow>
          (case map_of grp_wfs (grp @ ''_m1'') of
             None \<Rightarrow> Inl (KeyError (grp @ ''_m1''))
           | Some m1 \<Rightarrow>
               (case map_of grp_wfs (grp @ ''_m2'') of
                  None \<Rightarrow> Inl (KeyError (grp @ ''_m2''))
                | Some m2 \<Rightarrow> Inr (Packed a m1 m2))))"

text \<open>
  The loop over the groups for one element; the packed waveform is stored under the
  name \<^verbatim>\<open>el + '_' + grp\<close>:
  \<^verbatim>\<open>
  for grp in grps:
      grp_wfs = {}
      for cid in self._awg5014_group_ids(grp): ...
      wfname = el + '_' + grp
      packed_waveforms[wfname] = obj.pack_waveform(...)
  \<close>
\<close>

fun pack_element ::
  "string \<Rightarrow> string \<Rightarrow> cid_wfs \<Rightarrow> nat option \<Rightarrow> string list \<Rightarrow> (string \<times> packed) list \<Rightarrow>
   world \<Rightarrow> world \<times> (error + (string \<times> packed) list)" where
  "pack_element el awg cid_wfs maxlen [] pw w = (w, Inr pw)"
| "pack_element el awg cid_wfs maxlen (grp # grps) pw w =
     (case pad_group el awg cid_wfs maxlen (awg5014_group_ids grp) [] w of
        (w', Inl e) \<Rightarrow> (w', Inl e)
      | (w', Inr grp_wfs) \<Rightarrow>
          (case pack_group grp grp_wfs of
             Inl e \<Rightarrow> (w', Inl e)
           | Inr pk \<Rightarrow>
               pack_element el awg cid_wfs maxlen grps
                 (AList.update (el @ ''_'' @ grp) pk pw) w'))"

text \<open>
  The loop over the elements of one segment (called on
  \<^verbatim>\<open>sorted(el_wfs.items())\<close>) and the loop over the segments.
\<close>

fun pack_elements ::
  "string \<Rightarrow> string list \<Rightarrow> el_wfs \<Rightarrow> (string \<times> packed) list \<Rightarrow> world \<Rightarrow>
   world \<times> (error + (string \<times> packed) list)" where
  "pack_elements awg grps [] pw w = (w, Inr pw)"
| "pack_elements awg grps (((i, el), cid_wfs) # rest) pw w =
     (case pack_element el awg cid_wfs (maxlen_of cid_wfs) grps pw w of
        (w', Inl e) \<Rightarrow> (w', Inl e)
      | (w', Inr pw') \<Rightarrow> pack_elements awg grps rest pw' w')"

fun pack_segments ::
  "string \<Rightarrow> string list \<Rightarrow> el_wfs list \<Rightarrow> (string \<times> packed) list \<Rightarrow> world \<Rightarrow>
   world \<times> (error + (string \<times> packed) list)" where
  "pack_segments awg grps [] pw w = (w, Inr pw)"
| "pack_segments awg grps (el_wfs # rest) pw w =
     (case pack_elements awg grps (sort_key fst el_wfs) pw w of
        (w', Inl e) \<Rightarrow> (w', Inl e)
      | (w', Inr pw') \<Rightarrow> pack_segments awg grps rest pw' w')"

text \<open>
  Whether some group asks for hardware offsets:
  \<^verbatim>\<open>
  for grp in grps:
      cname = self._id_channel(grp, obj.name)
      try:
          options = self.get('{}_options'.format(cname))
      except:
          options = {}
      offset_mode = options.get('offset_mode', 'software')
      if offset_mode == 'hardware':
          hardware_offsets = True
  \<close>
\<close>

definition hardware_offsets :: "pulsar \<Rightarrow> string \<Rightarrow> string list \<Rightarrow> bool" where
  "hardware_offsets p awg grps =
     list_ex (\<lambda>grp.
        (case channel_options p awg grp of
           None \<Rightarrow> ''software''
         | Some options \<Rightarrow>
             (case options ''offset_mode'' of None \<Rightarrow> ''software'' | Some m \<Rightarrow> m))
        = ''hardware'') grps"

text \<open>
  The part of \<^verbatim>\<open>_program_awg\<close> after the waveforms are packed: the sequence lists,
  the upload (only when there is at least one group), and the restoring of the
  instrument's settings. \<^verbatim>\<open>goto_l[-1] = 1\<close> is an \<^verbatim>\<open>IndexError\<close> on an empty list.
\<close>

definition awg5014_upload ::
  "awg_obj \<Rightarrow> sequence \<Rightarrow> pulsar \<Rightarrow> string list \<Rightarrow> (string \<times> packed) list \<Rightarrow>
   (string \<times> real) list \<Rightarrow> world \<Rightarrow> world \<times> (error + awg_file option)" where
  "awg5014_upload obj sequence p grps pw old_vals w =
     (let name = obj_name obj;
          w1 = log_entry_add (Info_programming name (seq_name sequence)
                 (length (segments sequence))) w
      in case awg_sequence sequence name of
           None \<Rightarrow> (w1, Inl (KeyError name))
         | Some aseq \<Rightarrow>
             (let wfnames = map (\<lambda>grp. map (\<lambda>(element, segment). element @ ''_'' @ grp) aseq) grps;
                  no_of_elements = length aseq
              in if no_of_elements = 0 then (w1, Inl IndexError)
                 else
                   (let nreps = replicate no_of_elements 1;
                        gotos = (replicate no_of_elements 0)[no_of_elements - 1 := 1];
                        waits = replicate no_of_elements 1;
                        logic_jumps = replicate no_of_elements 0;
                        prev_offsets = map (\<lambda>ch. (ch, obj_get obj (ch @ ''_offset'')))
                                         [''ch1'', ''ch2'', ''ch3'', ''ch4''];
                        filename = seq_name sequence @ ''_FILE.AWG'';
                        file = \<lparr>packed_waveforms = pw, wfname_l = wfnames, nrep_l = nreps,
                                wait_l = waits, goto_l = gotos, logic_jump_l = logic_jumps,
                                channel_cfg = awg5014_chan_cfg p name\<rparr>;
                        awg_file = (if length wfnames > 0 then Some file else None);
                        w2 = (if length wfnames > 0
                              then calls_add [CallSendAwgFile name filename file,
                                              CallLoadAwgFile name filename] w1
                              else w1);
                        w3 = calls_add (map (\<lambda>(ch, off). CallSet name (ch @ ''_offset'') off)
                                          prev_offsets) w2;
                        w4 = calls_add (map (\<lambda>(par, v). CallSet name par v) old_vals) w3;
                        w5 = call (CallIsAwgReady name) (sleep_ms 100 w4);
                        w6 = awg5014_activate_channels grps name w5;
                        w7 = call (CallDCOutput name
                                     (if hardware_offsets p name grps then 1 else 0)) w6
                    in (w7, Inr awg_file))))"

text \<open>
  \<^verbatim>\<open>AWG5014Pulsar._program_awg(obj, sequence)\<close> for an instrument of one of the
  supported AWG5014 classes. The result is the returned AWG file (\<open>None\<close> when nothing
  is uploaded).
\<close>

definition awg5014_program_awg ::
  "awg_obj \<Rightarrow> sequence \<Rightarrow> pulsar \<Rightarrow> world \<Rightarrow> (pulsar \<times> world) \<times> (error + awg_file option)" where
  "awg5014_program_awg obj sequence p w =
     (let name = obj_name obj;
          old_vals = map (\<lambda>par. (par, obj_get obj par)) marker_pars
      in case collect_seg_wfs name (segments sequence) p [] False of
           (p1, Inl e) \<Rightarrow> ((p1, w), Inl e)
         | (p1, Inr (seg_wfs, awg_has_waveforms)) \<Rightarrow>
             if \<not> awg_has_waveforms
             then ((p1, awg5014_activate_channels [] name w), Inr None)
             else
               (let grps = nonzero_groups seg_wfs
                in case pack_segments name grps seg_wfs [] w of
                     (w1, Inl e) \<Rightarrow> ((p1, w1), Inl e)
                   | (w1, Inr pw) \<Rightarrow>
                       (case awg5014_upload obj sequence p1 grps pw old_vals w1 of
                          (w2, r) \<Rightarrow> ((p1, w2), r))))"


section \<open>Programming all AWGs\<close>

text \<open>
  \<^verbatim>\<open>HDAWG8Pulsar._program_awg\<close> writes the sequencer program of an HDAWG8 as text; it
  is not unfolded here and enters the model as the parameter \<open>hdawg8\<close> of this type.
\<close>

type_synonym program_step =
  "awg_obj \<Rightarrow> sequence \<Rightarrow> pulsar \<Rightarrow> world \<Rightarrow> (pulsar \<times> world) \<times> (error + unit)"

text \<open>
  \<^verbatim>\<open>Pulsar._program_awg(obj, sequence)\<close>: the chain of \<^verbatim>\<open>super()._program_awg\<close>
  calls through \<^verbatim>\<open>AWG5014Pulsar\<close> and \<^verbatim>\<open>HDAWG8Pulsar\<close>; an instrument of neither
  class reaches \<^verbatim>\<open>Instrument\<close>, which has no such method, and the
  \<^verbatim>\<open>AttributeError\<close> is turned into a \<^verbatim>\<open>TypeError\<close>. The returned file is dropped.
\<close>

definition program_awg :: "program_step \<Rightarrow> program_step" where
  "program_awg hdawg8 obj sequence p w =
     (if obj_type obj \<in> {Tektronix_AWG5014, VirtualAWG5014}
      then (case awg5014_program_awg obj sequence p w of
              (s, Inl e) \<Rightarrow> (s, Inl e)
            | (s, Inr awg_file) \<Rightarrow> (s, Inr ()))
      else if obj_type obj \<in> {ZI_HDAWG8, VirtualAWG8}
      then hdawg8 obj sequence p w
      else ((p, w), Inl (TypeError_unsupported (obj_name obj))))"

text \<open>
  \<^verbatim>\<open>AWGs_prequeried(True)\<close> reads the clock of every AWG in \<^verbatim>\<open>self.awgs\<close>
  (\<^verbatim>\<open>self.clock(awg=awg)\<close>, which fails on an unknown or unsupported instrument) and
  the amplitudes of all channels, then sets the flag; \<^verbatim>\<open>AWGs_prequeried(False)\<close>
  clears it. The values read are not modelled.
\<close>

fun prequery_clocks :: "instruments \<Rightarrow> string list \<Rightarrow> error + unit" where
  "prequery_clocks ins [] = Inr ()"
| "prequery_clocks ins (awg # rest) =
     (case ins awg of
        None \<Rightarrow> Inl (KeyError awg)
      | Some obj \<Rightarrow>
          if obj_type obj \<in> {Tektronix_AWG5014, VirtualAWG5014, ZI_HDAWG8, VirtualAWG8}
          then prequery_clocks ins rest
          else Inl (TypeError_unsupported awg))"

definition AWGs_prequeried :: "instruments \<Rightarrow> bool \<Rightarrow> pulsar \<Rightarrow> pulsar \<times> (error + unit)" where
  "AWGs_prequeried ins status p =
     (if status
      then (case prequery_clocks ins (awgs p) of
              Inl e \<Rightarrow> (p\<lparr>awgs_prequeried_state := False\<rparr>, Inl e)
            | Inr _ \<Rightarrow> (p\<lparr>awgs_prequeried_state := True\<rparr>, Inr ()))
      else (p\<lparr>awgs_prequeried_state := False\<rparr>, Inr ()))"

text \<open>
  \<^verbatim>\<open>
  for awg in awgs:
      obj = self.AWG_obj(awg=awg)
      self._program_awg(obj, sequence)
  \<close>
\<close>

fun program_each ::
  "program_step \<Rightarrow> instruments \<Rightarrow> sequence \<Rightarrow> string list \<Rightarrow> pulsar \<Rightarrow> world \<Rightarrow>
   (pulsar \<times> world) \<times> (error + unit)" where
  "program_each hdawg8 ins sequence [] p w = ((p, w), Inr ())"
| "program_each hdawg8 ins sequence (awg # rest) p w =
     (case ins awg of
        None \<Rightarrow> ((p, w), Inl (KeyError awg))
      | Some obj \<Rightarrow>
          (case program_awg hdawg8 obj sequence p w of
             (s, Inl e) \<Rightarrow> (s, Inl e)
           | ((p', w'), Inr _) \<Rightarrow> program_each hdawg8 ins sequence rest p' w'))"

text \<open>
  \<^verbatim>\<open>Pulsar.program_awgs(sequence, awgs='all')\<close>; the argument is \<open>None\<close> for
  \<^verbatim>\<open>'all'\<close>. \<^verbatim>\<open>seg.resolve_segment()\<close> and \<^verbatim>\<open>sequence.sequence_for_awg()\<close> belong
  to the timing resolver: the sequence of the model is the resolved one.
\<close>

definition program_awgs ::
  "program_step \<Rightarrow> instruments \<Rightarrow> sequence \<Rightarrow> string list option \<Rightarrow> pulsar \<Rightarrow> world \<Rightarrow>
   (pulsar \<times> world) \<times> (error + unit)" where
  "program_awgs hdawg8 ins sequence awgs_arg p w =
     (let p1 = p\<lparr>last_sequence := Some sequence, awgs_with_waveforms := []\<rparr>;
          awgs' = (case awgs_arg of None \<Rightarrow> active_awgs p1 | Some l \<Rightarrow> l)
      in case AWGs_prequeried ins True p1 of
           (p2, Inl e) \<Rightarrow> ((p2, w), Inl e)
         | (p2, Inr _) \<Rightarrow>
             (case program_each hdawg8 ins sequence awgs' p2 w of
                (s, Inl e) \<Rightarrow> (s, Inl e)
              | ((p3, w3), Inr _) \<Rightarrow> ((fst (AWGs_prequeried ins False p3), w3), Inr ())))"


section \<open>Waveform names of the legacy HDAWG8 path\<close>

text \<open>
  \<^verbatim>\<open>HDAWG8Pulsar._old_program_awg\<close>, the loop that fills \<^verbatim>\<open>unique_waveforms\<close> and
  \<^verbatim>\<open>wf_name_map\<close> for one pair of channels; the sharing of equal waveforms is commented
  out in the source ("add all waveforms"):
  \<^verbatim>\<open>
  for (_, el), cid_wfs in sorted(el_wfs.items()):
      for cid in [ch1id, ch1mid, ch2id, ch2mid]:
          if cid in cid_wfs:
              wfname = str(el) + '_' + cid
              cid_wf = cid_wfs[cid]
              wfhashable = tuple(cid_wf)
              unique_waveforms[wfname] = wfhashable
              wf_name_map[wfname] = wfname
  \<close>
\<close>

fun hdawg8_name_cids ::
  "string \<Rightarrow> cid_wfs \<Rightarrow> string list \<Rightarrow> (string \<times> waveform) list \<times> (string \<times> string) list \<Rightarrow>
   (string \<times> waveform) list \<times> (string \<times> string) list" where
  "hdawg8_name_cids el cid_wfs [] (unique_waveforms, wf_name_map) =
     (unique_waveforms, wf_name_map)"
| "hdawg8_name_cids el cid_wfs (cid # cids) (unique_waveforms, wf_name_map) =
     (case map_of cid_wfs cid of
        None \<Rightarrow> hdawg8_name_cids el cid_wfs cids (unique_waveforms, wf_name_map)
      | Some cid_wf \<Rightarrow>
          hdawg8_name_cids el cid_wfs cids
            (AList.update (el @ ''_'' @ cid) cid_wf unique_waveforms,
             AList.update (el @ ''_'' @ cid) (el @ ''_'' @ cid) wf_name_map))"

fun hdawg8_name_elements ::
  "string list \<Rightarrow> el_wfs \<Rightarrow> (string \<times> waveform) list \<times> (string \<times> string) list \<Rightarrow>
   (string \<times> waveform) list \<times> (string \<times> string) list" where
  "hdawg8_name_elements cids [] acc = acc"
| "hdawg8_name_elements cids (((i, el), cid_wfs) # rest) acc =
     hdawg8_name_elements cids rest (hdawg8_name_cids el cid_wfs cids acc)"

definition hdawg8_old_waveform_names ::
  "string list \<Rightarrow> el_wfs \<Rightarrow> (string \<times> waveform) list \<times> (string \<times> string) list" where
  "hdawg8_old_waveform_names cids el_wfs =
     hdawg8_name_elements cids (sort_key fst el_wfs) ([], [])"


section \<open>Closed forms used in the statements\<close>

text \<open>
  The functions of this section are not part of the program: they describe, in closed
  form, what the loops of \<^verbatim>\<open>AWG5014Pulsar._program_awg\<close> compute, and the theorems
  below relate the loops to them.
\<close>

text \<open>The samples of one channel id of an element; an id without samples counts as
  \<open>n\<close> zeros.\<close>

definition channel_samples :: "cid_wfs \<Rightarrow> nat \<Rightarrow> string \<Rightarrow> waveform" where
  "channel_samples cid_wfs n cid =
     (case map_of cid_wfs cid of Some arr \<Rightarrow> arr | None \<Rightarrow> replicate n 0)"

text \<open>The samples followed by zeros up to length \<open>n\<close>.\<close>

definition padded :: "cid_wfs \<Rightarrow> nat \<Rightarrow> string \<Rightarrow> waveform" where
  "padded cid_wfs n cid =
     channel_samples cid_wfs n cid @ replicate (n - length (channel_samples cid_wfs n cid)) 0"

definition packed_group :: "cid_wfs \<Rightarrow> nat \<Rightarrow> string \<Rightarrow> packed" where
  "packed_group cid_wfs n grp =
     Packed (padded cid_wfs n grp) (padded cid_wfs n (grp @ ''_m1'')) (padded cid_wfs n (grp @ ''_m2''))"

definition first_nonzero :: "waveform \<Rightarrow> bool" where
  "first_nonzero arr = (case arr of [] \<Rightarrow> False | x # _ \<Rightarrow> x \<noteq> 0)"

text \<open>The warnings logged for the ids of one group, and for the groups of one element.\<close>

definition nonzero_warnings :: "string \<Rightarrow> string \<Rightarrow> cid_wfs \<Rightarrow> nat \<Rightarrow> string list \<Rightarrow> log_entry list" where
  "nonzero_warnings el awg cid_wfs n ids =
     map (\<lambda>c. Warning_nonzero_first el awg) (filter (\<lambda>c. first_nonzero (padded cid_wfs n c)) ids)"

definition element_warnings :: "string \<Rightarrow> string \<Rightarrow> cid_wfs \<Rightarrow> nat \<Rightarrow> string list \<Rightarrow> log_entry list" where
  "element_warnings el awg cid_wfs n grps =
     concat (map (\<lambda>g. nonzero_warnings el awg cid_wfs n (awg5014_group_ids g)) grps)"

text \<open>The name under which a packed waveform is stored, and the packed waveforms of one
  element.\<close>

definition wfkey :: "string \<Rightarrow> string \<Rightarrow> string" where
  "wfkey el grp = el @ ''_'' @ grp"

definition element_packed ::
  "string \<Rightarrow> cid_wfs \<Rightarrow> nat \<Rightarrow> string list \<Rightarrow> (string \<times> packed) list \<Rightarrow> (string \<times> packed) list" where
  "element_packed el cid_wfs n grps pw =
     foldl (\<lambda>pw g. AList.update (wfkey el g) (packed_group cid_wfs n g) pw) pw grps"

definition element_names :: "el_wfs \<Rightarrow> string set" where
  "element_names el_wfs = (\<lambda>((i, el), cid_wfs). el) ` set el_wfs"



text \<open>The names of the AWGs to which a file has been sent, in the order of the calls.\<close>

definition uploaded_to :: "hw_call list \<Rightarrow> string list" where
  "uploaded_to cs =
     concat (map (\<lambda>c. case c of CallSendAwgFile awg filename file \<Rightarrow> [awg] | _ \<Rightarrow> []) cs)"

text \<open>All sample arrays that the segments of a sequence hold for an AWG.\<close>

definition segment_samples :: "string \<Rightarrow> segment \<Rightarrow> waveform list" where
  "segment_samples name seg =
     (case seg name of
        None \<Rightarrow> []
      | Some wfs \<Rightarrow> concat (map (\<lambda>(k, cws). concat (map (\<lambda>(cw, cid_wfs). map snd cid_wfs) cws)) wfs))"

definition samples_for :: "string \<Rightarrow> sequence \<Rightarrow> waveform list" where
  "samples_for name sequence =
     concat (map (\<lambda>(sname, seg). segment_samples name seg) (segments sequence))"

text \<open>The sample arrays of the waveforms collected for an AWG.\<close>

definition arrays_of :: "el_wfs list \<Rightarrow> waveform set" where
  "arrays_of seg_wfs = (\<Union>el_wfs \<in> set seg_wfs. \<Union>(k, cid_wfs) \<in> set el_wfs. snd ` set cid_wfs)"


section \<open>Example configurations\<close>

text \<open>Concrete instruments, Pulsar objects and sequences on which the model is run.\<close>

definition awg_example :: "string \<Rightarrow> awg_type \<Rightarrow> (nat \<Rightarrow> bool) \<Rightarrow> awg_obj" where
  "awg_example n ty run =
     \<lparr>obj_name = n, obj_type = ty, obj_get = (\<lambda>par. 0), obj_timeout = 10,
      reports_running = run\<rparr>"

text \<open>\<open>AWG2\<close> reports a running state from 200 ms on; \<open>AWG1\<close> and \<open>AWG3\<close> always.\<close>

definition ins_example :: instruments where
  "ins_example =
     [''AWG1'' \<mapsto> awg_example ''AWG1'' Tektronix_AWG5014 (\<lambda>t. True),
      ''AWG2'' \<mapsto> awg_example ''AWG2'' Tektronix_AWG5014 (\<lambda>t. 200 \<le> t),
      ''AWG3'' \<mapsto> awg_example ''AWG3'' VirtualAWG5014 (\<lambda>t. True)]"

definition world_example :: world where
  "world_example = \<lparr>now = 0, calls = [], log = []\<rparr>"

text \<open>Three AWGs, \<open>AWG3\<close> inactive, \<open>AWG1\<close> without programmed waveforms.\<close>

definition pulsar_stop_example :: pulsar where
  "pulsar_stop_example =
     \<lparr>awgs = [''AWG1'', ''AWG2'', ''AWG3''], awg_active = (\<lambda>a. a \<noteq> ''AWG3''),
      master_awg = None, awgs_with_waveforms = [''AWG3'', ''AWG2''],
      awgs_prequeried_state = False, last_sequence = None,
      awg5014_chan_cfg = (\<lambda>a. []),
      channel_options = (\<lambda>a g. None)\<rparr>"




text \<open>Two elements \<open>A\<close> and \<open>B\<close> of one segment with the same samples on \<open>ch1\<close>.\<close>

definition el_wfs_same_content :: el_wfs where
  "el_wfs_same_content = [((0, ''A''), [(''ch1'', [0, 1])]), ((1, ''B''), [(''ch1'', [0, 1])])]"


text \<open>
  Sequences of one segment with one element \<open>A\<close>: for \<open>AWG1\<close> with samples that are
  all zero; for \<open>AWG1\<close> with a sample that is not zero; and for \<open>AWG1\<close> as before and
  for \<open>AWG2\<close> with a codeword, which the AWG5014 does not support.
\<close>

definition sequence_zero_example :: sequence where
  "sequence_zero_example =
     \<lparr>seq_name = ''seq'',
      segments = [(''seg1'', [''AWG1'' \<mapsto> [((0, ''A''), [(''no_codeword'', [(''ch1'', [0, 0])])])]])],
      awg_sequence = [''AWG1'' \<mapsto> [(''A'', ''seg1'')]]\<rparr>"

definition sequence_one_example :: sequence where
  "sequence_one_example =
     \<lparr>seq_name = ''seq'',
      segments = [(''seg1'', [''AWG1'' \<mapsto> [((0, ''A''), [(''no_codeword'', [(''ch1'', [0, 1])])])]])],
      awg_sequence = [''AWG1'' \<mapsto> [(''A'', ''seg1'')]]\<rparr>"

definition sequence_two_example :: sequence where
  "sequence_two_example =
     \<lparr>seq_name = ''seq'',
      segments = [(''seg1'',
         [''AWG1'' \<mapsto> [((0, ''A''), [(''no_codeword'', [(''ch1'', [0, 1])])])],
          ''AWG2'' \<mapsto> [((0, ''A''), [(''cw0'', [(''ch1'', [0, 1])])])]])],
      awg_sequence = [''AWG1'' \<mapsto> [(''A'', ''seg1'')], ''AWG2'' \<mapsto> [(''A'', ''seg1'')]]\<rparr>"

text \<open>A Pulsar object with the three AWGs active and no programmed waveforms yet.\<close>

definition pulsar_program_example :: pulsar where
  "pulsar_program_example =
     \<lparr>awgs = [''AWG1'', ''AWG2'', ''AWG3''], awg_active = (\<lambda>a. True),
      master_awg = None, awgs_with_waveforms = [],
      awgs_prequeried_state = False, last_sequence = None,
      awg5014_chan_cfg = (\<lambda>a. []),
      channel_options = (\<lambda>a g. None)\<rparr>"

text \<open>No HDAWG8 takes part in the examples; its programming step is never reached.\<close>

definition hdawg8_example :: program_step where
  "hdawg8_example obj sequence p w = ((p, w), Inr ())"


definition awg1_example :: awg_obj where
  "awg1_example = awg_example ''AWG1'' Tektronix_AWG5014 (\<lambda>t. True)"


definition awg2_example :: awg_obj where
  "awg2_example = awg_example ''AWG2'' Tektronix_AWG5014 (\<lambda>t. 200 \<le> t)"


section \<open>Properties of the waveform names\<close>

lemma simplify_step_length: "length (simplify_step s i) = length s"
  by (simp add: simplify_step_def)



section \<open>Stopping\<close>



lemma stop_all_calls:
  "\<forall>a\<in>set as. ins a \<noteq> None \<Longrightarrow>
   stop_all ins as w = (w\<lparr>calls := calls w @ map CallStop as\<rparr>, Inr ())"
  by (induction as arbitrary: w) (auto simp: stop_awg_def call_def)

lemma stop_all_only:
  "\<exists>xs. calls (fst (stop_all ins as w)) = calls w @ map CallStop xs \<and> set xs \<subseteq> set as"
proof (induction as arbitrary: w)
  case Nil
  then show ?case by simp
next
  case (Cons a as)
  show ?case
  proof (cases "ins a")
    case None
    then show ?thesis by (simp add: stop_awg_def)
  next
    case (Some obj)
    from Cons [of "call (CallStop a) w"] obtain xs where
      xs: "calls (fst (stop_all ins as (call (CallStop a) w))) = calls (call (CallStop a) w) @ map CallStop xs"
        "set xs \<subseteq> set as" by blast
    have "calls (fst (stop_all ins (a # as) w)) = calls w @ map CallStop (a # xs)"
      using Some xs(1) by (simp add: stop_awg_def call_def)
    moreover have "set (a # xs) \<subseteq> set (a # as)" using xs(2) by auto
    ultimately show ?thesis by blast
  qed
qed

lemma set_used_awgs:
  "set (used_awgs p) = {a \<in> set (awgs p). awg_active p a} \<inter> set (awgs_with_waveforms p)"
  by (auto simp: used_awgs_def active_awgs_def)

lemma distinct_used_awgs: "distinct (awgs p) \<Longrightarrow> distinct (used_awgs p)"
  by (simp add: used_awgs_def active_awgs_def)

text \<open>
  C6. \<open>stop\<close> calls the stop operation only on AWGs that are both active and in the set
  of AWGs with programmed waveforms; when each of these AWGs names a registered
  instrument, \<open>stop\<close> succeeds and has called the stop operation on exactly that set
  (once each, since \<^verbatim>\<open>self.awgs\<close> is a set), and made no other call.
\<close>

theorem stop_stops_exactly_used_awgs:
  "(\<exists>xs. calls (fst (stop ins p w)) = calls w @ map CallStop xs \<and>
         set xs \<subseteq> {a \<in> set (awgs p). awg_active p a} \<inter> set (awgs_with_waveforms p)) \<and>
   ((\<forall>a \<in> set (used_awgs p). ins a \<noteq> None) \<longrightarrow>
      (\<exists>xs. stop ins p w = (w\<lparr>calls := calls w @ map CallStop xs\<rparr>, Inr ()) \<and>
            set xs = {a \<in> set (awgs p). awg_active p a} \<inter> set (awgs_with_waveforms p) \<and>
            (distinct (awgs p) \<longrightarrow> distinct xs)))"
proof (intro conjI impI)
  show "\<exists>xs. calls (fst (stop ins p w)) = calls w @ map CallStop xs \<and>
         set xs \<subseteq> {a \<in> set (awgs p). awg_active p a} \<inter> set (awgs_with_waveforms p)"
    using stop_all_only [of ins "used_awgs p" w] by (simp add: stop_def set_used_awgs)
next
  assume "\<forall>a \<in> set (used_awgs p). ins a \<noteq> None"
  then have "stop ins p w = (w\<lparr>calls := calls w @ map CallStop (used_awgs p)\<rparr>, Inr ())"
    by (simp add: stop_def stop_all_calls)
  then show "\<exists>xs. stop ins p w = (w\<lparr>calls := calls w @ map CallStop xs\<rparr>, Inr ()) \<and>
            set xs = {a \<in> set (awgs p). awg_active p a} \<inter> set (awgs_with_waveforms p) \<and>
            (distinct (awgs p) \<longrightarrow> distinct xs)"
    using set_used_awgs distinct_used_awgs by blast
qed
theorem stop_stops_exactly_used_awgs_witness:
  "used_awgs pulsar_stop_example = [''AWG2''] \<and> ins_example ''AWG2'' \<noteq> None \<and>
   (\<exists>xs. stop ins_example pulsar_stop_example world_example
            = (world_example\<lparr>calls := calls world_example @ map CallStop xs\<rparr>, Inr ()) \<and>
         set xs = {''AWG2''})"
proof -
  have h: "\<forall>a \<in> set (used_awgs pulsar_stop_example). ins_example a \<noteq> None"
    by (simp add: used_awgs_def active_awgs_def pulsar_stop_example_def ins_example_def)
  have s: "{a \<in> set (awgs pulsar_stop_example). awg_active pulsar_stop_example a}
             \<inter> set (awgs_with_waveforms pulsar_stop_example) = {''AWG2''}"
    by (auto simp: pulsar_stop_example_def)
  from stop_stops_exactly_used_awgs [of ins_example pulsar_stop_example world_example] h
  have "\<exists>xs. stop ins_example pulsar_stop_example world_example
            = (world_example\<lparr>calls := calls world_example @ map CallStop xs\<rparr>, Inr ()) \<and>
         set xs = {a \<in> set (awgs pulsar_stop_example). awg_active pulsar_stop_example a}
             \<inter> set (awgs_with_waveforms pulsar_stop_example)"
    by blast
  moreover have "used_awgs pulsar_stop_example = [''AWG2'']"
    by (simp add: used_awgs_def active_awgs_def pulsar_stop_example_def)
  moreover have "ins_example ''AWG2'' \<noteq> None"
    by (simp add: ins_example_def)
  ultimately show ?thesis using s by simp
qed


section \<open>Start ordering\<close>

















section \<open>Packing the waveforms of an element\<close>

lemma maxlen_fold:
  "\<exists>k. foldl (\<lambda>maxlen arr. Some (case maxlen of None \<Rightarrow> length arr | Some n \<Rightarrow> max n (length arr)))
          (Some m) ls = Some k \<and> m \<le> k \<and> (\<forall>a \<in> set ls. length a \<le> k) \<and>
        (k = m \<or> (\<exists>a \<in> set ls. length a = k))"
proof (induction ls arbitrary: m)
  case Nil
  then show ?case by simp
next
  case (Cons a ls)
  from Cons [of "max m (length a)"] obtain k where
    k: "foldl (\<lambda>maxlen arr. Some (case maxlen of None \<Rightarrow> length arr | Some n \<Rightarrow> max n (length arr)))
          (Some (max m (length a))) ls = Some k"
       "max m (length a) \<le> k" "\<forall>a \<in> set ls. length a \<le> k"
       "k = max m (length a) \<or> (\<exists>a \<in> set ls. length a = k)" by blast
  have "k = m \<or> (\<exists>b \<in> set (a # ls). length b = k)"
    using k(4) by (auto simp: max_def split: if_splits)
  with k(1,2,3) show ?case by auto
qed

lemma maxlen_of_Nil: "maxlen_of [] = None"
  by (simp add: maxlen_of_def)

lemma maxlen_of_Some:
  "maxlen_of cid_wfs = Some n \<Longrightarrow>
   (\<forall>(c, a) \<in> set cid_wfs. length a \<le> n) \<and> (\<exists>(c, a) \<in> set cid_wfs. length a = n)"
proof (cases cid_wfs)
  case Nil
  then show "maxlen_of cid_wfs = Some n \<Longrightarrow> ?thesis" by (simp add: maxlen_of_def)
next
  case (Cons x xs)
  assume n: "maxlen_of cid_wfs = Some n"
  from maxlen_fold [of "length (snd x)" "map snd xs"] obtain k where
    k: "foldl (\<lambda>maxlen arr. Some (case maxlen of None \<Rightarrow> length arr | Some n \<Rightarrow> max n (length arr)))
          (Some (length (snd x))) (map snd xs) = Some k"
       "length (snd x) \<le> k" "\<forall>a \<in> set (map snd xs). length a \<le> k"
       "k = length (snd x) \<or> (\<exists>a \<in> set (map snd xs). length a = k)" by blast
  from n k(1) Cons have "n = k" by (simp add: maxlen_of_def)
  with k Cons show ?thesis by (cases x) force
qed

lemma maxlen_of_not_None: "cid_wfs \<noteq> [] \<Longrightarrow> \<exists>n. maxlen_of cid_wfs = Some n"
proof (cases cid_wfs)
  case Nil
  then show "cid_wfs \<noteq> [] \<Longrightarrow> ?thesis" by simp
next
  case (Cons x xs)
  from maxlen_fold [of "length (snd x)" "map snd xs"] Cons
  show ?thesis by (auto simp: maxlen_of_def)
qed

lemma channel_samples_le:
  "maxlen_of cid_wfs = Some n \<Longrightarrow> length (channel_samples cid_wfs n cid) \<le> n"
proof (cases "map_of cid_wfs cid")
  case None
  then show ?thesis by (simp add: channel_samples_def)
next
  case (Some a)
  assume "maxlen_of cid_wfs = Some n"
  moreover from Some have "(cid, a) \<in> set cid_wfs" by (rule map_of_SomeD)
  ultimately have "length a \<le> n" using maxlen_of_Some by fastforce
  with Some show ?thesis by (simp add: channel_samples_def)
qed

lemma length_padded:
  "length (channel_samples cid_wfs n cid) \<le> n \<Longrightarrow> length (padded cid_wfs n cid) = n"
  by (simp add: padded_def)

lemma group_waveform_cases:
  "group_waveform cid_wfs (Some n) cid =
     (if length (channel_samples cid_wfs n cid) \<le> n then Inr (padded cid_wfs n cid)
      else Inl ValueError)"
  by (auto simp: group_waveform_def np_pad_def padded_def channel_samples_def Let_def
        nat_diff_distrib' split: option.splits)

lemma group_waveform_None: "group_waveform cid_wfs None cid = Inl TypeError"
  by (simp add: group_waveform_def)



lemma pad_group_None:
  "ids \<noteq> [] \<Longrightarrow> pad_group el awg cid_wfs None ids g w = (w, Inl TypeError)"
  by (cases ids) (simp_all add: group_waveform_None)

lemma pad_group_Some:
  "\<forall>c \<in> set ids. length (channel_samples cid_wfs n c) \<le> n \<Longrightarrow> 0 < n \<Longrightarrow>
   pad_group el awg cid_wfs (Some n) ids g w =
     (w\<lparr>log := log w @ nonzero_warnings el awg cid_wfs n ids\<rparr>,
      Inr (foldl (\<lambda>g c. AList.update c (padded cid_wfs n c) g) g ids))"
proof (induction ids arbitrary: g w)
  case Nil
  then show ?case by (simp add: nonzero_warnings_def)
next
  case (Cons c ids)
  from Cons.prems have le: "length (channel_samples cid_wfs n c) \<le> n" by simp
  then have len: "length (padded cid_wfs n c) = n" by (rule length_padded)
  with Cons.prems(2) obtain x xs where px: "padded cid_wfs n c = x # xs"
    by (cases "padded cid_wfs n c") auto
  have gw: "group_waveform cid_wfs (Some n) c = Inr (x # xs)"
    using le px by (simp add: group_waveform_cases)
  have rest: "\<forall>c \<in> set ids. length (channel_samples cid_wfs n c) \<le> n" using Cons.prems by simp
  show ?case
  proof (cases "x \<noteq> 0")
    case True
    then have fn: "first_nonzero (padded cid_wfs n c)" by (simp add: first_nonzero_def px)
    show ?thesis
      using True gw fn px Cons.IH [OF rest Cons.prems(2)]
      by (simp add: nonzero_warnings_def log_entry_add_def)
  next
    case False
    then have fn: "\<not> first_nonzero (padded cid_wfs n c)" by (simp add: first_nonzero_def px)
    show ?thesis
      using False gw fn px Cons.IH [OF rest Cons.prems(2)]
      by (simp add: nonzero_warnings_def)
  qed
qed

text \<open>a successful run on a non-empty list of ids fixes the shape of the arguments\<close>

lemma pad_group_success:
  "pad_group el awg cid_wfs m ids g w = (w', Inr g') \<Longrightarrow> ids \<noteq> [] \<Longrightarrow>
   \<exists>n. m = Some n \<and> 0 < n \<and> (\<forall>c \<in> set ids. length (channel_samples cid_wfs n c) \<le> n)"
proof (induction ids arbitrary: g w)
  case Nil
  then show ?case by simp
next
  case (Cons c ids)
  show ?case
  proof (cases m)
    case None
    with Cons.prems show ?thesis by (simp add: group_waveform_None)
  next
    case (Some n)
    show ?thesis
    proof (cases "length (channel_samples cid_wfs n c) \<le> n")
      case False
      with Some Cons.prems show ?thesis by (simp add: group_waveform_cases)
    next
      case True
      then have len: "length (padded cid_wfs n c) = n" by (rule length_padded)
      show ?thesis
      proof (cases "padded cid_wfs n c")
        case Nil
        with Some True Cons.prems show ?thesis by (simp add: group_waveform_cases)
      next
        case (Cons x xs)
        with len have npos: "0 < n" by auto
        let ?w1 = "if x \<noteq> 0 then log_entry_add (Warning_nonzero_first el awg) w else w"
        from Cons Some True Cons.prems(1)
        have rec: "pad_group el awg cid_wfs m ids (AList.update c (x # xs) g) ?w1 = (w', Inr g')"
          by (simp add: group_waveform_cases)
        show ?thesis
        proof (cases "ids = []")
          case t: True
          with Some npos True show ?thesis by simp
        next
          case False
          from Cons.IH [OF rec False] Some True npos show ?thesis by auto
        qed
      qed
    qed
  qed
qed




lemma wfkey_inj_el: "(wfkey el g = wfkey el' g) = (el = el')"
  by (simp add: wfkey_def)

lemma group_ids_map:
  "map_of (foldl (\<lambda>g c. AList.update c (f c) g) [] (awg5014_group_ids grp)) =
     [take 3 grp \<mapsto> f (take 3 grp), take 3 grp @ ''_m1'' \<mapsto> f (take 3 grp @ ''_m1''),
      take 3 grp @ ''_m2'' \<mapsto> f (take 3 grp @ ''_m2'')]"
  by (rule ext) (simp add: awg5014_group_ids_def update_conv)

lemma m1_not_short: "grp @ ''_m1'' \<noteq> take 3 grp" "grp @ ''_m2'' \<noteq> take 3 grp"
  by (auto dest: arg_cong [where f = length])

lemma pack_group_ids:
  "pack_group grp (foldl (\<lambda>g c. AList.update c (f c) g) [] (awg5014_group_ids grp)) =
     (if take 3 grp = grp then Inr (Packed (f grp) (f (grp @ ''_m1'')) (f (grp @ ''_m2'')))
      else if grp = take 3 grp @ ''_m1'' \<or> grp = take 3 grp @ ''_m2''
           then Inl (KeyError (grp @ ''_m1''))
           else Inl (KeyError grp))"
proof (cases "take 3 grp = grp")
  case True
  then show ?thesis
    unfolding pack_group_def group_ids_map by (simp add: True)
next
  case False
  have a: "grp @ ''_m1'' \<noteq> take 3 grp @ ''_m1''" using False by (metis append_same_eq)
  have b: "grp @ ''_m1'' \<noteq> take 3 grp @ ''_m2''" by simp
  show ?thesis
    unfolding pack_group_def group_ids_map
    using False a b m1_not_short [of grp] by auto
qed

lemma pack_element_Some:
  "maxlen_of cid_wfs = Some n \<Longrightarrow> 0 < n \<Longrightarrow> \<forall>g \<in> set grps. length g \<le> 3 \<Longrightarrow>
   pack_element el awg cid_wfs (Some n) grps pw w =
     (w\<lparr>log := log w @ element_warnings el awg cid_wfs n grps\<rparr>,
      Inr (element_packed el cid_wfs n grps pw))"
proof (induction grps arbitrary: pw w)
  case Nil
  then show ?case by (simp add: element_warnings_def element_packed_def)
next
  case (Cons g grps)
  have le: "\<forall>c \<in> set (awg5014_group_ids g). length (channel_samples cid_wfs n c) \<le> n"
    using channel_samples_le [OF Cons.prems(1)] by simp
  have t: "take 3 g = g" using Cons.prems(3) by simp
  have pg: "pack_group g (foldl (\<lambda>gw c. AList.update c (padded cid_wfs n c) gw) []
              (awg5014_group_ids g)) = Inr (packed_group cid_wfs n g)"
    by (simp add: pack_group_ids t packed_group_def)
  have rest: "\<forall>g \<in> set grps. length g \<le> 3" using Cons.prems(3) by simp
  show ?case
    using pad_group_Some [OF le Cons.prems(2), of el awg "[]" w] pg
      Cons.IH [OF Cons.prems(1,2) rest]
    by (simp add: element_warnings_def element_packed_def wfkey_def)
qed

lemma pack_element_success:
  "pack_element el awg cid_wfs m grps pw w = (w', Inr pw') \<Longrightarrow> grps \<noteq> [] \<Longrightarrow>
   \<exists>n. m = Some n \<and> 0 < n \<and> (\<forall>g \<in> set grps. length g \<le> 3)"
proof (induction grps arbitrary: pw w)
  case Nil
  then show ?case by simp
next
  case (Cons g grps)
  obtain w1 r1 where q: "pad_group el awg cid_wfs m (awg5014_group_ids g) [] w = (w1, r1)"
    by (cases "pad_group el awg cid_wfs m (awg5014_group_ids g) [] w")
  with Cons.prems(1) obtain gw where r1: "r1 = Inr gw" by (cases r1) auto
  have ne: "awg5014_group_ids g \<noteq> []" by (simp add: awg5014_group_ids_def)
  from pad_group_success [OF q [unfolded r1] ne] obtain n where
    n: "m = Some n" "0 < n"
       "\<forall>c \<in> set (awg5014_group_ids g). length (channel_samples cid_wfs n c) \<le> n" by blast
  from pad_group_Some [OF n(3) n(2), of el awg "[]" w] q r1 n(1)
  have gw: "gw = foldl (\<lambda>gw c. AList.update c (padded cid_wfs n c) gw) [] (awg5014_group_ids g)"
    and w1: "w1 = w\<lparr>log := log w @ nonzero_warnings el awg cid_wfs n (awg5014_group_ids g)\<rparr>"
    by simp_all
  obtain pk where pk: "pack_group g gw = Inr pk"
    using Cons.prems(1) q r1 by (cases "pack_group g gw") auto
  have t: "take 3 g = g"
    using pk unfolding gw pack_group_ids by (auto split: if_splits)
  then have lg: "length g \<le> 3" by (metis length_take min.cobounded2)
  from Cons.prems(1) q r1 pk
  have rec: "pack_element el awg cid_wfs m grps (AList.update (el @ ''_'' @ g) pk pw) w1 = (w', Inr pw')"
    by simp
  show ?case
  proof (cases "grps = []")
    case True
    with n lg show ?thesis by simp
  next
    case False
    from Cons.IH [OF rec False] n lg show ?thesis by auto
  qed
qed



lemma element_packed_keys:
  "fst ` set (element_packed el cid_wfs n grps pw) = fst ` set pw \<union> wfkey el ` set grps"
  by (induction grps arbitrary: pw) (auto simp: element_packed_def dom_update)






section \<open>The names of the waveforms\<close>

lemma pack_element_keys:
  assumes "pack_element el awg cid_wfs (maxlen_of cid_wfs) grps pw w = (w', Inr pw')"
  shows "fst ` set pw' = fst ` set pw \<union> wfkey el ` set grps"
proof (cases "grps = []")
  case True
  with assms show ?thesis by simp
next
  case False
  from pack_element_success [OF assms False] obtain n where
    n: "maxlen_of cid_wfs = Some n" "0 < n" "\<forall>g \<in> set grps. length g \<le> 3" by blast
  from pack_element_Some [OF n, of el awg pw w] assms n(1)
  have "pw' = element_packed el cid_wfs n grps pw" by simp
  then show ?thesis by (simp add: element_packed_keys)
qed

lemma pack_elements_keys:
  "pack_elements awg grps els pw w = (w', Inr pw') \<Longrightarrow>
   fst ` set pw' = fst ` set pw \<union> (\<Union>el \<in> element_names els. wfkey el ` set grps)"
proof (induction els arbitrary: pw w)
  case Nil
  then show ?case by (simp add: element_names_def)
next
  case (Cons x els)
  obtain i el cid_wfs where x: "x = ((i, el), cid_wfs)" by (cases x) auto
  obtain w1 r1 where q: "pack_element el awg cid_wfs (maxlen_of cid_wfs) grps pw w = (w1, r1)"
    by (cases "pack_element el awg cid_wfs (maxlen_of cid_wfs) grps pw w")
  with Cons.prems x obtain pw1 where r1: "r1 = Inr pw1" by (cases r1) auto
  from Cons.prems x q r1 have rec: "pack_elements awg grps els pw1 w1 = (w', Inr pw')" by simp
  from pack_element_keys [OF q [unfolded r1]] Cons.IH [OF rec]
  show ?case by (auto simp: x element_names_def)
qed

lemma pack_segments_keys:
  "pack_segments awg grps seg_wfs pw w = (w', Inr pw') \<Longrightarrow>
   fst ` set pw' =
     fst ` set pw \<union> (\<Union>el_wfs \<in> set seg_wfs. \<Union>el \<in> element_names el_wfs. wfkey el ` set grps)"
proof (induction seg_wfs arbitrary: pw w)
  case Nil
  then show ?case by simp
next
  case (Cons el_wfs seg_wfs)
  obtain w1 r1 where q: "pack_elements awg grps (sort_key fst el_wfs) pw w = (w1, r1)"
    by (cases "pack_elements awg grps (sort_key fst el_wfs) pw w")
  with Cons.prems obtain pw1 where r1: "r1 = Inr pw1" by (cases r1) auto
  from Cons.prems q r1 have rec: "pack_segments awg grps seg_wfs pw1 w1 = (w', Inr pw')" by simp
  have names: "element_names (sort_key fst el_wfs) = element_names el_wfs"
    by (simp add: element_names_def)
  from pack_elements_keys [OF q [unfolded r1]] Cons.IH [OF rec] names
  show ?case by auto
qed

lemma hdawg8_name_cids_map:
  "(\<forall>k v. map_of (snd acc) k = Some v \<longrightarrow> v = k) \<Longrightarrow>
   (\<forall>k v. map_of (snd (hdawg8_name_cids el cid_wfs cids acc)) k = Some v \<longrightarrow> v = k)"
proof (induction cids arbitrary: acc)
  case Nil
  then show ?case by (cases acc) simp
next
  case (Cons cid cids)
  obtain u m where acc: "acc = (u, m)" by (cases acc)
  show ?case
  proof (cases "map_of cid_wfs cid")
    case None
    have "\<forall>k v. map_of (snd (u, m)) k = Some v \<longrightarrow> v = k" using Cons.prems acc by simp
    from Cons.IH [OF this] None acc show ?thesis by simp
  next
    case (Some a)
    let ?acc' = "(AList.update (el @ ''_'' @ cid) a u,
                  AList.update (el @ ''_'' @ cid) (el @ ''_'' @ cid) m)"
    have "\<forall>k v. map_of (snd ?acc') k = Some v \<longrightarrow> v = k"
      using Cons.prems acc by (auto simp: update_conv)
    from Cons.IH [OF this] Some acc show ?thesis by simp
  qed
qed

lemma hdawg8_name_elements_map:
  "(\<forall>k v. map_of (snd acc) k = Some v \<longrightarrow> v = k) \<Longrightarrow>
   (\<forall>k v. map_of (snd (hdawg8_name_elements cids els acc)) k = Some v \<longrightarrow> v = k)"
proof (induction els arbitrary: acc)
  case Nil
  then show ?case by simp
next
  case (Cons x els)
  obtain i el cid_wfs where x: "x = ((i, el), cid_wfs)" by (cases x) auto
  from Cons.IH [OF hdawg8_name_cids_map [OF Cons.prems, of el cid_wfs cids]]
  show ?case by (simp add: x)
qed

text \<open>
  C2. The names under which the packed waveforms of an AWG5014 are stored are exactly
  the names \<open>el_grp\<close> of the elements and channel groups, whatever the samples are:
  two elements of one group share a name only if they are the same element. In the
  legacy HDAWG8 path every waveform name is mapped to itself, so no waveform is shared
  there either.
\<close>

theorem waveform_keys_follow_element_names:
  "(pack_segments awg grps seg_wfs pw w = (w', Inr pw') \<longrightarrow>
      fst ` set pw' =
        fst ` set pw \<union>
        (\<Union>el_wfs \<in> set seg_wfs. \<Union>el \<in> element_names el_wfs. (\<lambda>g. el @ ''_'' @ g) ` set grps)) \<and>
   ((el1 @ ''_'' @ grp = el2 @ ''_'' @ grp) = (el1 = el2)) \<and>
   (map_of (snd (hdawg8_old_waveform_names cids el_wfs)) k = Some v \<longrightarrow> v = k)"
proof (intro conjI impI)
  assume "pack_segments awg grps seg_wfs pw w = (w', Inr pw')"
  from pack_segments_keys [OF this]
  show "fst ` set pw' =
        fst ` set pw \<union>
        (\<Union>el_wfs \<in> set seg_wfs. \<Union>el \<in> element_names el_wfs. (\<lambda>g. el @ ''_'' @ g) ` set grps)"
    by (simp add: wfkey_def [abs_def])
next
  show "(el1 @ ''_'' @ grp = el2 @ ''_'' @ grp) = (el1 = el2)" by simp
next
  assume a: "map_of (snd (hdawg8_old_waveform_names cids el_wfs)) k = Some v"
  have "\<forall>k v. map_of (snd (([], []) :: (string \<times> waveform) list \<times> (string \<times> string) list)) k = Some v
          \<longrightarrow> v = k" by simp
  from hdawg8_name_elements_map [OF this, of cids "sort_key fst el_wfs"] a
  show "v = k" by (simp add: hdawg8_old_waveform_names_def)
qed

theorem waveform_keys_follow_element_names_witness:
  "pack_segments ''AWG1'' [''ch1''] [el_wfs_same_content] [] world_example =
     (world_example,
      Inr [(''A_ch1'', Packed [0, 1] [0, 0] [0, 0]), (''B_ch1'', Packed [0, 1] [0, 0] [0, 0])]) \<and>
   fst ` set [(''A_ch1'', Packed [0, 1] [0, 0] [0, 0]), (''B_ch1'', Packed [0, 1] [0, 0] [0, 0])] =
     fst ` set ([] :: (string \<times> packed) list) \<union>
     (\<Union>el_wfs \<in> set [el_wfs_same_content]. \<Union>el \<in> element_names el_wfs.
         (\<lambda>g. el @ ''_'' @ g) ` set [''ch1''])"
proof -
  have r: "pack_segments ''AWG1'' [''ch1''] [el_wfs_same_content] [] world_example =
     (world_example,
      Inr [(''A_ch1'', Packed [0, 1] [0, 0] [0, 0]), (''B_ch1'', Packed [0, 1] [0, 0] [0, 0])])"
    by (simp add: el_wfs_same_content_def maxlen_of_def awg5014_group_ids_def group_waveform_def
        np_pad_def pack_group_def log_entry_add_def world_example_def eval_nat_numeral)
  have "pack_segments ''AWG1'' [''ch1''] [el_wfs_same_content] [] world_example =
     (world_example,
      Inr [(''A_ch1'', Packed [0, 1] [0, 0] [0, 0]), (''B_ch1'', Packed [0, 1] [0, 0] [0, 0])]) \<longrightarrow>
   fst ` set [(''A_ch1'', Packed [0, 1] [0, 0] [0, 0]), (''B_ch1'', Packed [0, 1] [0, 0] [0, 0])] =
     fst ` set ([] :: (string \<times> packed) list) \<union>
     (\<Union>el_wfs \<in> set [el_wfs_same_content]. \<Union>el \<in> element_names el_wfs.
         (\<lambda>g. el @ ''_'' @ g) ` set [''ch1''])"
    by (rule conjunct1 [OF waveform_keys_follow_element_names])
  from this r have "fst ` set [(''A_ch1'', Packed [0, 1] [0, 0] [0, 0]), (''B_ch1'', Packed [0, 1] [0, 0] [0, 0])] =
     fst ` set ([] :: (string \<times> packed) list) \<union>
     (\<Union>el_wfs \<in> set [el_wfs_same_content]. \<Union>el \<in> element_names el_wfs.
         (\<lambda>g. el @ ''_'' @ g) ` set [''ch1''])" by (rule mp)
  with r show ?thesis by (rule conjI)
qed

text \<open>
  Two elements \<open>A\<close> and \<open>B\<close> with the same samples on \<open>ch1\<close> are stored twice, under
  the two names \<open>A_ch1\<close> and \<open>B_ch1\<close>.
\<close>

theorem same_content_different_keys:
  "pack_segments ''AWG1'' [''ch1''] [el_wfs_same_content] [] world_example =
     (world_example,
      Inr [(''A_ch1'', Packed [0, 1] [0, 0] [0, 0]), (''B_ch1'', Packed [0, 1] [0, 0] [0, 0])])"
  by (simp add: el_wfs_same_content_def maxlen_of_def awg5014_group_ids_def group_waveform_def
        np_pad_def pack_group_def log_entry_add_def world_example_def eval_nat_numeral)


section \<open>The log is write-only\<close>














end
